theory Spec2Isabelle
  imports Main "HOL-Library.AList"
begin

section \<open>Python values and the JSON documents the store holds\<close>

text \<open>
  The module \<^verbatim>\<open>auth.py\<close> keeps three families of keys in one Redis database:
  \<^verbatim>\<open>qbo:realm:state:<state>\<close> and \<^verbatim>\<open>qbo:realm:code:<code>\<close> (written with a 600 second
  expiry by the callback handler, holding the bare realm id) and
  \<^verbatim>\<open>qbo:realm:client:<client_id>\<close> (written without expiry, holding \<^verbatim>\<open>json.dumps\<close> of a
  three-key dict). The values the code handles are Python scalars and flat dicts of them.
\<close>

datatype pyval = PNone | PBool bool | PInt int | PStr string

type_synonym pydict = "(string \<times> pyval) list"

text \<open>Python truthiness, as \<^verbatim>\<open>if realm_id:\<close> and \<^verbatim>\<open>if realm_data:\<close> test it.\<close>

fun truthy :: "pyval \<Rightarrow> bool" where
  "truthy PNone = False"
| "truthy (PBool b) = b"
| "truthy (PInt n) = (n \<noteq> 0)"
| "truthy (PStr s) = (s \<noteq> [])"

text \<open>\<^verbatim>\<open>d.get(k)\<close>: the value, or \<^verbatim>\<open>None\<close> for a missing key.\<close>

definition dict_get :: "pydict \<Rightarrow> string \<Rightarrow> pyval" where
  "dict_get d k = (case map_of d k of Some v \<Rightarrow> v | None \<Rightarrow> PNone)"

text \<open>\<^verbatim>\<open>d.get(k, default)\<close>.\<close>

definition dict_get_default :: "pydict \<Rightarrow> string \<Rightarrow> pyval \<Rightarrow> pyval" where
  "dict_get_default d k dflt = (case map_of d k of Some v \<Rightarrow> v | None \<Rightarrow> dflt)"

subsection \<open>Decimal text of integers: \<^verbatim>\<open>str\<close>\<close>

definition digit_char :: "nat \<Rightarrow> char" where
  "digit_char n = char_of (48 + n)"

function show_nat :: "nat \<Rightarrow> string" where
  "show_nat n = (if n < 10 then [digit_char n] else show_nat (n div 10) @ [digit_char (n mod 10)])"
  by pat_completeness auto
termination
  by (relation "measure id") auto

declare show_nat.simps [simp del]

text \<open>\<^verbatim>\<open>str(v)\<close> on the scalars.\<close>

fun py_str :: "pyval \<Rightarrow> string" where
  "py_str PNone = ''None''"
| "py_str (PBool b) = (if b then ''True'' else ''False'')"
| "py_str (PInt n) = (if n < 0 then CHR ''-'' # show_nat (nat (- n)) else show_nat (nat n))"
| "py_str (PStr s) = s"

subsection \<open>\<^verbatim>\<open>json.loads\<close> on the scalar fragment\<close>

text \<open>
  \<^verbatim>\<open>exchange_authorization_code\<close> passes every state-keyed value through \<^verbatim>\<open>json.loads\<close>
  and tells three outcomes apart: a dict, any other decoded value, and
  \<^verbatim>\<open>json.JSONDecodeError\<close>. The library function is modelled on the documents made of one
  scalar token between optional whitespace: \<^verbatim>\<open>null\<close>, \<^verbatim>\<open>true\<close>, \<^verbatim>\<open>false\<close> and integer
  literals. A text that starts an object, an array or a string, a number with a fraction or
  an exponent, \<^verbatim>\<open>NaN\<close>, \<^verbatim>\<open>Infinity\<close>, and an integer literal of more than 4300 digits (where
  the interpreter's digit limit raises \<^verbatim>\<open>ValueError\<close>) get the third result
  \<open>Unmodelled_document\<close>: every function below that meets it returns \<open>Unmodelled\<close>
  itself, so nothing is stated about such input.
\<close>

datatype json_doc = Scalar pyval | Dict pydict

datatype 'a loads_run = Decoded 'a | JSONDecodeError | Unmodelled_document

fun startswith :: "string \<Rightarrow> string \<Rightarrow> bool" where
  "startswith s [] = True"
| "startswith [] (p # ps) = False"
| "startswith (c # s) (p # ps) = (c = p \<and> startswith s ps)"

definition json_ws :: "char \<Rightarrow> bool" where
  "json_ws c = (c = CHR '' '' \<or> c = CHR 0x09 \<or> c = CHR 0x0A \<or> c = CHR 0x0D)"

definition is_digit :: "char \<Rightarrow> bool" where
  "is_digit c = (c \<in> set ''0123456789'')"

definition digit_val :: "char \<Rightarrow> nat" where
  "digit_val c = of_char c - 48"

definition dec_value :: "string \<Rightarrow> nat" where
  "dec_value ds = foldl (\<lambda>a c. 10 * a + digit_val c) 0 ds"

text \<open>After the value only whitespace may follow; anything else is "Extra data".\<close>

definition finish :: "pyval \<Rightarrow> string \<Rightarrow> json_doc loads_run" where
  "finish v rest = (if list_all json_ws rest then Decoded (Scalar v) else JSONDecodeError)"

definition is_fraction :: "string \<Rightarrow> bool" where
  "is_fraction rest = (case rest of c # d # _ \<Rightarrow> c = CHR ''.'' \<and> is_digit d | _ \<Rightarrow> False)"

definition is_exponent :: "string \<Rightarrow> bool" where
  "is_exponent rest =
     (case rest of
        [] \<Rightarrow> False
      | e # r \<Rightarrow> (e = CHR ''e'' \<or> e = CHR ''E'') \<and>
          (case r of
             [] \<Rightarrow> False
           | s # r' \<Rightarrow>
               if s = CHR ''+'' \<or> s = CHR ''-''
               then (case r' of [] \<Rightarrow> False | d # _ \<Rightarrow> is_digit d)
               else is_digit s))"

text \<open>
  The number token: \<^verbatim>\<open>(-?(?:0|[1-9][0-9]*))(\.[0-9]+)?([eE][-+]?[0-9]+)?\<close>. The text \<open>t\<close>
  starts with \<^verbatim>\<open>-\<close> or a digit.
\<close>

definition scan_number :: "string \<Rightarrow> json_doc loads_run" where
  "scan_number t =
     (let neg = startswith t ''-'';
          u = (if neg then tl t else t);
          ds = (case u of [] \<Rightarrow> [] | c # _ \<Rightarrow> if c = CHR ''0'' then [c] else takeWhile is_digit u);
          rest = drop (length ds) u
      in if ds = [] then (if startswith t ''-Infinity'' then Unmodelled_document else JSONDecodeError)
         else if is_fraction rest \<or> is_exponent rest then Unmodelled_document
         else if 4300 < length ds then Unmodelled_document
         else finish (PInt (if neg then - int (dec_value ds) else int (dec_value ds))) rest)"

definition json_loads :: "string \<Rightarrow> json_doc loads_run" where
  "json_loads s =
     (let t = dropWhile json_ws s
      in case t of
           [] \<Rightarrow> JSONDecodeError
         | c # _ \<Rightarrow>
             if c = CHR ''{'' \<or> c = CHR ''['' \<or> c = CHR 0x22 then Unmodelled_document
             else if c = CHR ''n'' then
               (if startswith t ''null'' then finish PNone (drop 4 t) else JSONDecodeError)
             else if c = CHR ''t'' then
               (if startswith t ''true'' then finish (PBool True) (drop 4 t) else JSONDecodeError)
             else if c = CHR ''f'' then
               (if startswith t ''false'' then finish (PBool False) (drop 5 t) else JSONDecodeError)
             else if c = CHR ''N'' then
               (if startswith t ''NaN'' then Unmodelled_document else JSONDecodeError)
             else if c = CHR ''I'' then
               (if startswith t ''Infinity'' then Unmodelled_document else JSONDecodeError)
             else if c = CHR ''-'' \<or> is_digit c then scan_number t
             else JSONDecodeError)"

section \<open>The Redis store\<close>

text \<open>
  A value is the text that was written: either verbatim text, or \<^verbatim>\<open>json.dumps(data)\<close> of a
  flat dict, kept as the dict it encodes (\<^verbatim>\<open>json.loads\<close> of it gives \<open>data\<close> back). An
  entry carries the time its key expires, if any. The list order of the entries is the order
  in which \<^verbatim>\<open>scan_iter\<close> yields the keys; Redis promises no particular order. Every mutating
  command is also appended to a journal, so that the writes of a call can be counted. The
  store is assumed to answer every command: a connection error is not modelled.
\<close>

datatype redis_value = Text string | JsonDumped pydict

datatype redis_cmd = SETEX string nat redis_value | SET string redis_value | DEL string

record redis =
  entries :: "(string \<times> redis_value \<times> nat option) list"
  journal :: "redis_cmd list"

definition live :: "nat \<Rightarrow> redis_value \<times> nat option \<Rightarrow> bool" where
  "live now e = (case snd e of None \<Rightarrow> True | Some t \<Rightarrow> now < t)"

definition redis_get :: "nat \<Rightarrow> redis \<Rightarrow> string \<Rightarrow> redis_value option" where
  "redis_get now r k =
     (case map_of (entries r) k of
        None \<Rightarrow> None
      | Some e \<Rightarrow> if live now e then Some (fst e) else None)"

definition redis_setex :: "nat \<Rightarrow> redis \<Rightarrow> string \<Rightarrow> nat \<Rightarrow> redis_value \<Rightarrow> redis" where
  "redis_setex now r k ttl v =
     r\<lparr>entries := AList.update k (v, Some (now + ttl)) (entries r),
       journal := journal r @ [SETEX k ttl v]\<rparr>"

definition redis_set :: "redis \<Rightarrow> string \<Rightarrow> redis_value \<Rightarrow> redis" where
  "redis_set r k v =
     r\<lparr>entries := AList.update k (v, None) (entries r), journal := journal r @ [SET k v]\<rparr>"

definition redis_delete :: "redis \<Rightarrow> string \<Rightarrow> redis" where
  "redis_delete r k =
     r\<lparr>entries := AList.delete k (entries r), journal := journal r @ [DEL k]\<rparr>"

text \<open>\<^verbatim>\<open>scan_iter(prefix + "*")\<close>: the live keys that start with the prefix.\<close>

definition scan_iter :: "nat \<Rightarrow> redis \<Rightarrow> string \<Rightarrow> string list" where
  "scan_iter now r pre =
     map fst (filter (\<lambda>(k, e). startswith k pre \<and> live now e) (entries r))"

text \<open>\<^verbatim>\<open>if value:\<close> on the bytes read: the empty text is falsy.\<close>

fun value_truthy :: "redis_value \<Rightarrow> bool" where
  "value_truthy (Text s) = (s \<noteq> [])"
| "value_truthy (JsonDumped d) = True"

fun loads_value :: "redis_value \<Rightarrow> json_doc loads_run" where
  "loads_value (Text s) = json_loads s"
| "loads_value (JsonDumped d) = Decoded (Dict d)"

definition state_prefix :: string where
  "state_prefix = ''qbo:realm:state:''"

definition code_prefix :: string where
  "code_prefix = ''qbo:realm:code:''"

definition client_prefix :: string where
  "client_prefix = ''qbo:realm:client:''"

section \<open>QuickBooksOAuthProxy\<close>

definition store_realm_by_state :: "nat \<Rightarrow> redis \<Rightarrow> string \<Rightarrow> string \<Rightarrow> redis" where
  "store_realm_by_state now r state realm_id =
     redis_setex now r (state_prefix @ state) 600 (Text realm_id)"

text \<open>
  \<open>utcnow\<close> stands for \<^verbatim>\<open>datetime.utcnow().isoformat()\<close> at the time of the call.
\<close>

definition store_realm_by_client_id ::
  "string \<Rightarrow> redis \<Rightarrow> string \<Rightarrow> pyval \<Rightarrow> pyval \<Rightarrow> redis" where
  "store_realm_by_client_id utcnow r client_id realm_id refresh_token =
     redis_set r (client_prefix @ client_id)
       (JsonDumped [(''realm_id'', realm_id), (''refresh_token'', refresh_token),
                    (''updated_at'', PStr utcnow)])"

text \<open>Returns the decoded document, \<^verbatim>\<open>None\<close> for no value, or raises what \<^verbatim>\<open>json.loads\<close> raises.\<close>

definition get_realm_data_by_client_id ::
  "nat \<Rightarrow> redis \<Rightarrow> string \<Rightarrow> json_doc option loads_run" where
  "get_realm_data_by_client_id now r client_id =
     (case redis_get now r (client_prefix @ client_id) of
        None \<Rightarrow> Decoded None
      | Some v \<Rightarrow>
          if value_truthy v
          then (case loads_value v of
                  Decoded d \<Rightarrow> Decoded (Some d)
                | JSONDecodeError \<Rightarrow> JSONDecodeError
                | Unmodelled_document \<Rightarrow> Unmodelled_document)
          else Decoded None)"

text \<open>
  The callback request: the dict view of its query string. A parameter is "present" when
  \<^verbatim>\<open>query_params.get\<close> returns a non-empty string.
\<close>

record request =
  query_params :: "string \<rightharpoonup> string"

definition present :: "string option \<Rightarrow> bool" where
  "present p = (case p of None \<Rightarrow> False | Some s \<Rightarrow> s \<noteq> [])"

text \<open>
  \<open>parent\<close> is \<^verbatim>\<open>super()._handle_idp_callback\<close>, the wrapped flow that produces the
  redirect response.
\<close>

definition handle_idp_callback ::
  "(request \<Rightarrow> 'resp) \<Rightarrow> nat \<Rightarrow> redis \<Rightarrow> request \<Rightarrow> 'resp \<times> redis" where
  "handle_idp_callback parent now r req =
     (let realm_id = query_params req ''realmId'';
          state = query_params req ''state'';
          code = query_params req ''code'';
          r1 = (if present realm_id \<and> present state
                then store_realm_by_state now r (the state) (the realm_id)
                else r);
          r2 = (if present realm_id \<and> present code
                then redis_setex now r1 (code_prefix @ the code) 600 (Text (the realm_id))
                else r1)
      in (parent req, r2))"

text \<open>
  A run of the model either follows the code to its end, or stops at a stored text that
  \<open>json_loads\<close> does not model.
\<close>

datatype 'a run = Ran 'a | Unmodelled

text \<open>
  Method 1 of \<^verbatim>\<open>exchange_authorization_code\<close>: the loop over the state-keyed keys. The
  variable \<^verbatim>\<open>realm_id\<close> keeps the last value assigned to it, also a falsy one.
\<close>

definition realm_of_doc :: "json_doc \<Rightarrow> pyval" where
  "realm_of_doc doc =
     (case doc of Dict d \<Rightarrow> dict_get d ''realm_id'' | Scalar x \<Rightarrow> PStr (py_str x))"

fun scan_state_entries :: "nat \<Rightarrow> string list \<Rightarrow> pyval \<Rightarrow> redis \<Rightarrow> (pyval \<times> redis) run" where
  "scan_state_entries now [] realm_id r = Ran (realm_id, r)"
| "scan_state_entries now (key # keys) realm_id r =
     (case redis_get now r key of
        None \<Rightarrow> scan_state_entries now keys realm_id r
      | Some v \<Rightarrow>
          if \<not> value_truthy v then scan_state_entries now keys realm_id r
          else (case loads_value v of
                  Decoded doc \<Rightarrow>
                    if truthy (realm_of_doc doc)
                    then Ran (realm_of_doc doc, redis_delete r key)
                    else scan_state_entries now keys (realm_of_doc doc) r
                | JSONDecodeError \<Rightarrow>
                    (case v of
                       Text data \<Rightarrow> Ran (PStr data, redis_delete r key)
                     | JsonDumped d \<Rightarrow> Unmodelled)
                | Unmodelled_document \<Rightarrow> Unmodelled))"

text \<open>
  Method 2: the loop over the code-keyed keys, which takes the text as it is. The text of
  a dumped dict is not modelled.
\<close>

fun scan_code_entries :: "nat \<Rightarrow> string list \<Rightarrow> pyval \<Rightarrow> redis \<Rightarrow> (pyval \<times> redis) run" where
  "scan_code_entries now [] realm_id r = Ran (realm_id, r)"
| "scan_code_entries now (key # keys) realm_id r =
     (case redis_get now r key of
        None \<Rightarrow> scan_code_entries now keys realm_id r
      | Some v \<Rightarrow>
          if \<not> value_truthy v then scan_code_entries now keys realm_id r
          else (case v of
                  Text data \<Rightarrow> Ran (PStr data, redis_delete r key)
                | JsonDumped d \<Rightarrow> Unmodelled))"

text \<open>Lines 157 to 194: both methods in sequence.\<close>

definition resolve_realm_id :: "nat \<Rightarrow> redis \<Rightarrow> (pyval \<times> redis) run" where
  "resolve_realm_id now r =
     (case scan_state_entries now (scan_iter now r state_prefix) PNone r of
        Unmodelled \<Rightarrow> Unmodelled
      | Ran (realm_id, r1) \<Rightarrow>
          if \<not> truthy realm_id
          then scan_code_entries now (scan_iter now r1 code_prefix) realm_id r1
          else Ran (realm_id, r1))"

record client =
  client_id :: "string option"

record authorization_code =
  code :: string

record code_model =
  idp_tokens :: pydict

text \<open>
  \<open>parent_exchange\<close> is \<^verbatim>\<open>super().exchange_authorization_code\<close>, which returns the token
  response or raises; \<open>code_store\<close> is \<^verbatim>\<open>self._code_store.get\<close>. An exception of the
  parent leaves the function after the store was already changed. The refresh token is
  read from the code model fetched before the parent call, when it has \<^verbatim>\<open>idp_tokens\<close>.
\<close>

definition idp_refresh_token :: "code_model option \<Rightarrow> pyval" where
  "idp_refresh_token cm =
     (case cm of
        None \<Rightarrow> PNone
      | Some m \<Rightarrow> if idp_tokens m \<noteq> [] then dict_get (idp_tokens m) ''refresh_token'' else PNone)"

definition exchange_authorization_code ::
  "(client \<Rightarrow> authorization_code \<Rightarrow> 'e + 'tok) \<Rightarrow> (string \<rightharpoonup> code_model) \<Rightarrow>
   nat \<Rightarrow> string \<Rightarrow> redis \<Rightarrow> client \<Rightarrow> authorization_code \<Rightarrow> (('e + 'tok) \<times> redis) run" where
  "exchange_authorization_code parent_exchange code_store now utcnow r cl authorization_code =
     (let cm = code_store (code authorization_code)
      in case resolve_realm_id now r of
           Unmodelled \<Rightarrow> Unmodelled
         | Ran (realm_id, r2) \<Rightarrow>
             (case parent_exchange cl authorization_code of
                Inl err \<Rightarrow> Ran (Inl err, r2)
              | Inr result \<Rightarrow>
                  (let refresh_token = idp_refresh_token cm
                   in if truthy realm_id \<and> present (client_id cl)
                      then Ran (Inr result,
                             store_realm_by_client_id utcnow r2 (the (client_id cl)) realm_id
                               refresh_token)
                      else Ran (Inr result, r2))))"

section \<open>QBOTokenVerifier\<close>

datatype 'b http_outcome = Response nat 'b | TimeoutException | OtherException

record verifier =
  required_scopes :: "string list"

record access_token =
  token :: string
  token_client_id :: string
  scopes :: "string list"
  claims :: pydict

text \<open>\<^verbatim>\<open>xs or []\<close> on a list.\<close>

definition or_empty :: "'a list \<Rightarrow> 'a list" where
  "or_empty xs = (if xs \<noteq> [] then xs else [])"

text \<open>
  \<^verbatim>\<open>_refresh_token\<close>. \<open>post\<close> is the token endpoint, called with the application's
  credentials, as a function of the form data sent; the body of a response is
  \<^verbatim>\<open>response.json()\<close>, \<open>None\<close> when that call raises or gives no dict (then \<^verbatim>\<open>.get\<close> raises).
  The second component of the result lists the requests that were sent.
\<close>

definition refresh_token ::
  "(pydict \<Rightarrow> pydict option http_outcome) \<Rightarrow> string \<Rightarrow> redis \<Rightarrow> string \<Rightarrow> string \<Rightarrow> string \<Rightarrow>
   (pyval \<times> pyval) option \<times> pydict list \<times> redis" where
  "refresh_token post utcnow r refresh_tok realm_id cid =
     (let data = [(''grant_type'', PStr ''refresh_token''), (''refresh_token'', PStr refresh_tok)]
      in case post data of
           Response status body \<Rightarrow>
             if status \<noteq> 200 then (None, [data], r)
             else (case body of
                     None \<Rightarrow> (None, [data], r)
                   | Some reply \<Rightarrow>
                       (let new_access = dict_get reply ''access_token'';
                            new_refresh = dict_get_default reply ''refresh_token'' (PStr refresh_tok)
                        in (Some (new_access, new_refresh), [data],
                            store_realm_by_client_id utcnow r cid (PStr realm_id) new_refresh)))
         | TimeoutException \<Rightarrow> (None, [data], r)
         | OtherException \<Rightarrow> (None, [data], r))"

text \<open>\<^verbatim>\<open>key_str.split(":")[-1]\<close>: what follows the last colon.\<close>

definition last_segment :: "string \<Rightarrow> string" where
  "last_segment s = rev (takeWhile (\<lambda>c. c \<noteq> CHR '':'') (rev s))"

definition authenticated :: "verifier \<Rightarrow> string \<Rightarrow> string \<Rightarrow> string \<Rightarrow> pyval \<Rightarrow> access_token" where
  "authenticated v utcnow tok cid realm_id =
     \<lparr>token = tok, token_client_id = cid, scopes = or_empty (required_scopes v),
      claims = [(''upstream_access_token'', PStr tok), (''realm_id'', realm_id),
                (''validated_at'', PStr utcnow)]\<rparr>"

text \<open>
  \<^verbatim>\<open>verify_token\<close>. \<open>userinfo\<close> is the GET on the OpenID userinfo endpoint with the token
  as bearer credential. \<^verbatim>\<open>None\<close> is the unauthenticated result. A \<^verbatim>\<open>JSONDecodeError\<close> of
  \<^verbatim>\<open>get_realm_data_by_client_id\<close> and the \<^verbatim>\<open>AttributeError\<close> of \<^verbatim>\<open>.get\<close> on a truthy
  non-dict are caught by \<^verbatim>\<open>except Exception\<close>.
\<close>

definition verify_token ::
  "verifier \<Rightarrow> (string \<Rightarrow> unit http_outcome) \<Rightarrow> nat \<Rightarrow> string \<Rightarrow> redis \<Rightarrow> string \<Rightarrow>
   access_token option run" where
  "verify_token v userinfo now utcnow r tok =
     (case userinfo tok of
        TimeoutException \<Rightarrow>
          Ran (Some \<lparr>token = tok, token_client_id = ''timeout-fallback'',
                     scopes = or_empty (required_scopes v),
                     claims = [(''upstream_access_token'', PStr tok), (''realm_id'', PNone),
                               (''validated_at'', PStr utcnow), (''timeout'', PBool True)]\<rparr>)
      | OtherException \<Rightarrow> Ran None
      | Response status body \<Rightarrow>
          if status = 401 then Ran None
          else (case scan_iter now r client_prefix of
                  [] \<Rightarrow> Ran (Some (authenticated v utcnow tok ''default'' PNone))
                | key_str # _ \<Rightarrow>
                    (let cid = last_segment key_str
                     in case get_realm_data_by_client_id now r cid of
                          Unmodelled_document \<Rightarrow> Unmodelled
                        | JSONDecodeError \<Rightarrow> Ran None
                        | Decoded None \<Rightarrow> Ran (Some (authenticated v utcnow tok cid PNone))
                        | Decoded (Some (Dict d)) \<Rightarrow>
                            if d \<noteq> []
                            then Ran (Some (authenticated v utcnow tok cid (dict_get d ''realm_id'')))
                            else Ran (Some (authenticated v utcnow tok cid PNone))
                        | Decoded (Some (Scalar x)) \<Rightarrow>
                            if truthy x then Ran None
                            else Ran (Some (authenticated v utcnow tok cid PNone)))))"

section \<open>Predicates used in the statements\<close>

text \<open>Redis holds one value per key.\<close>

definition keys_distinct :: "redis \<Rightarrow> bool" where
  "keys_distinct r = distinct (map fst (entries r))"


text \<open>
  The key a journal entry is about, and the journal entries that set a key to the dump of
  a dict with exactly the three keys of a client binding.
\<close>

fun cmd_key :: "redis_cmd \<Rightarrow> string" where
  "cmd_key (SETEX k ttl v) = k"
| "cmd_key (SET k v) = k"
| "cmd_key (DEL k) = k"

fun complete_binding_write :: "redis_cmd \<Rightarrow> bool" where
  "complete_binding_write (SET k (JsonDumped d)) =
     (map fst d = [''realm_id'', ''refresh_token'', ''updated_at''])"
| "complete_binding_write (SET k (Text s)) = False"
| "complete_binding_write (SETEX k ttl v) = False"
| "complete_binding_write (DEL k) = False"



text \<open>
  The stores whose client-keyed values are all dumped dicts, as
  \<^verbatim>\<open>store_realm_by_client_id\<close> writes them.
\<close>

definition bindings_dumped :: "redis \<Rightarrow> bool" where
  "bindings_dumped r =
     list_all (\<lambda>(k, v, e).
        startswith k client_prefix \<longrightarrow> (case v of JsonDumped d \<Rightarrow> True | Text s \<Rightarrow> False))
       (entries r)"





section \<open>Lemmas about the store and the JSON fragment\<close>

lemma startswith_append: "startswith (p @ s) p"
  by (induction p) auto

lemma startswith_take: "startswith s p \<longleftrightarrow> take (length p) s = p"
  by (induction s p rule: startswith.induct) auto

lemma redis_get_setex:
  "redis_get t (redis_setex now r k ttl v) k' =
     (if k' = k then (if t < now + ttl then Some v else None) else redis_get t r k')"
  by (simp add: redis_get_def redis_setex_def update_conv' live_def)

lemma redis_get_set:
  "redis_get t (redis_set r k v) k' = (if k' = k then Some v else redis_get t r k')"
  by (simp add: redis_get_def redis_set_def update_conv' live_def)



lemma keys_distinct_set: "keys_distinct r \<Longrightarrow> keys_distinct (redis_set r k v)"
  by (simp add: keys_distinct_def redis_set_def distinct_update)















lemma state_key_neq_code_key: "state_prefix @ s \<noteq> code_prefix @ c"
  by (simp add: state_prefix_def code_prefix_def)

lemma scan_iter_prefix: "k \<in> set (scan_iter now r pre) \<Longrightarrow> startswith k pre"
  by (auto simp: scan_iter_def)

lemma startswith_both:
  assumes "startswith k p" "startswith k q" "length p \<le> length q"
  shows "startswith q p"
proof -
  from assms(1,2) have p: "take (length p) k = p" and q: "take (length q) k = q"
    by (simp_all add: startswith_take)
  have "take (length p) q = take (length p) (take (length q) k)" using q by simp
  also have "\<dots> = take (length p) k" using assms(3) by (simp add: min_def)
  finally show ?thesis using p by (simp add: startswith_take)
qed

lemma state_key_not_client: "startswith k state_prefix \<Longrightarrow> \<not> startswith k client_prefix"
proof
  assume "startswith k state_prefix" "startswith k client_prefix"
  then have "startswith client_prefix state_prefix"
    by (rule startswith_both) (simp add: state_prefix_def client_prefix_def)
  then show False by (simp add: state_prefix_def client_prefix_def)
qed

lemma code_key_not_client: "startswith k code_prefix \<Longrightarrow> \<not> startswith k client_prefix"
proof
  assume "startswith k code_prefix" "startswith k client_prefix"
  then have "startswith client_prefix code_prefix"
    by (rule startswith_both) (simp add: code_prefix_def client_prefix_def)
  then show False by (simp add: code_prefix_def client_prefix_def)
qed

lemma scan_state_entries_effect:
  assumes "scan_state_entries now keys v0 r = Ran (v, r')" "\<not> truthy v0"
  shows "(\<not> truthy v \<and> r' = r) \<or>
         (truthy v \<and> (\<exists>k \<in> set keys. redis_get now r k \<noteq> None \<and> r' = redis_delete r k))"
  using assms
proof (induction keys arbitrary: v0)
  case Nil
  then show ?case by simp
next
  case (Cons key keys)
  show ?case
  proof (cases "redis_get now r key")
    case None
    with Cons.prems have "scan_state_entries now keys v0 r = Ran (v, r')" by simp
    from Cons.IH [OF this Cons.prems(2)] show ?thesis by auto
  next
    case (Some val)
    show ?thesis
    proof (cases "value_truthy val")
      case False
      with Some Cons.prems have "scan_state_entries now keys v0 r = Ran (v, r')" by simp
      from Cons.IH [OF this Cons.prems(2)] show ?thesis by auto
    next
      case True
      show ?thesis
      proof (cases "loads_value val")
        case (Decoded doc)
        show ?thesis
        proof (cases "truthy (realm_of_doc doc)")
          case t: True
          with Some True Decoded Cons.prems(1)
          have "v = realm_of_doc doc" "r' = redis_delete r key" by simp_all
          with t Some show ?thesis by auto
        next
          case f: False
          with Some True Decoded Cons.prems(1)
          have "scan_state_entries now keys (realm_of_doc doc) r = Ran (v, r')" by simp
          from Cons.IH [OF this f] show ?thesis by auto
        qed
      next
        case JSONDecodeError
        then obtain data where val: "val = Text data" by (cases val) auto
        with True have "data \<noteq> []" by simp
        moreover from Some True JSONDecodeError val Cons.prems(1)
        have "v = PStr data" "r' = redis_delete r key" by simp_all
        ultimately show ?thesis using Some by auto
      next
        case Unmodelled_document
        with Some True Cons.prems(1) show ?thesis by simp
      qed
    qed
  qed
qed

lemma scan_code_entries_effect:
  assumes "scan_code_entries now keys v0 r = Ran (v, r')" "\<not> truthy v0"
  shows "(\<not> truthy v \<and> r' = r) \<or>
         (truthy v \<and> (\<exists>k \<in> set keys. redis_get now r k \<noteq> None \<and> r' = redis_delete r k))"
  using assms
proof (induction keys)
  case Nil
  then show ?case by simp
next
  case (Cons key keys)
  show ?case
  proof (cases "redis_get now r key")
    case None
    with Cons show ?thesis by auto
  next
    case (Some val)
    show ?thesis
    proof (cases "value_truthy val")
      case False
      with Some Cons show ?thesis by auto
    next
      case True
      with Some Cons.prems(1) obtain data where "val = Text data" "data \<noteq> []"
        "v = PStr data" "r' = redis_delete r key"
        by (cases val) auto
      with Some show ?thesis by auto
    qed
  qed
qed

lemma resolve_realm_id_effect:
  assumes "resolve_realm_id now r = Ran (v, r')"
  shows "(\<not> truthy v \<and> r' = r) \<or>
         (truthy v \<and>
          (\<exists>k. (startswith k state_prefix \<or> startswith k code_prefix) \<and>
               redis_get now r k \<noteq> None \<and> r' = redis_delete r k))"
proof (cases "scan_state_entries now (scan_iter now r state_prefix) PNone r")
  case Unmodelled
  with assms show ?thesis by (simp add: resolve_realm_id_def)
next
  case (Ran p)
  obtain v1 r1 where p: "p = (v1, r1)" by (cases p)
  from scan_state_entries_effect [OF Ran [unfolded p]]
  have e1: "(\<not> truthy v1 \<and> r1 = r) \<or>
            (truthy v1 \<and> (\<exists>k \<in> set (scan_iter now r state_prefix).
               redis_get now r k \<noteq> None \<and> r1 = redis_delete r k))"
    by simp
  show ?thesis
  proof (cases "truthy v1")
    case True
    with assms Ran p have "v = v1" "r' = r1" by (simp_all add: resolve_realm_id_def)
    with True e1 show ?thesis by (auto dest: scan_iter_prefix)
  next
    case False
    with e1 have r1: "r1 = r" by simp
    from assms Ran p False r1
    have "scan_code_entries now (scan_iter now r code_prefix) v1 r = Ran (v, r')"
      by (simp add: resolve_realm_id_def)
    from scan_code_entries_effect [OF this False] show ?thesis
      by (auto dest: scan_iter_prefix)
  qed
qed

lemma or_empty_id: "or_empty xs = xs"
  by (simp add: or_empty_def)

lemma verify_token_Some_fields:
  assumes "verify_token v userinfo now utcnow r tok = Ran (Some a)"
  shows "token a = tok \<and> scopes a = required_scopes v \<and>
         map_of (claims a) ''upstream_access_token'' = Some (PStr tok)"
  using assms
  by (auto simp: verify_token_def authenticated_def or_empty_id Let_def
      split: http_outcome.splits if_splits list.splits loads_run.splits option.splits
        json_doc.splits)

lemma filter_key_absent: "k \<notin> fst ` set al \<Longrightarrow> filter (\<lambda>e. fst e = k) al = []"
  by (induction al) auto

lemma filter_update_same:
  "distinct (map fst al) \<Longrightarrow> filter (\<lambda>e. fst e = k) (AList.update k v al) = [(k, v)]"
  by (induction al) (auto simp: filter_key_absent)


lemma exchange_cases:
  assumes "exchange_authorization_code parent_exchange code_store now utcnow r cl ac = Ran (out, rf)"
  obtains v r1 where "resolve_realm_id now r = Ran (v, r1)"
    "rf = r1 \<or> (truthy v \<and> (\<exists>cid rt. rf = store_realm_by_client_id utcnow r1 cid v rt))"
proof (cases "resolve_realm_id now r")
  case Unmodelled
  with assms show ?thesis by (simp add: exchange_authorization_code_def)
next
  case (Ran p)
  obtain v r1 where p: "p = (v, r1)" by (cases p)
  have "rf = r1 \<or> (truthy v \<and> (\<exists>cid rt. rf = store_realm_by_client_id utcnow r1 cid v rt))"
    using assms Ran p
    by (auto simp: exchange_authorization_code_def Let_def split: sum.splits if_splits)
  with Ran p that show ?thesis by simp
qed

lemma scan_code_entries_skip:
  assumes "\<forall>k' \<in> set skipped. redis_get now r k' = Some (Text [])"
  shows "scan_code_entries now (skipped @ rest) v0 r = scan_code_entries now rest v0 r"
  using assms by (induction skipped) auto




lemma exchange_journal:
  assumes "exchange_authorization_code parent_exchange code_store now utcnow r cl ac = Ran (out, rf)"
  shows "\<exists>cmds. journal rf = journal r @ cmds \<and>
           (\<forall>c \<in> set cmds. startswith (cmd_key c) client_prefix \<longrightarrow> complete_binding_write c)"
proof -
  from assms obtain v r1 where res: "resolve_realm_id now r = Ran (v, r1)"
    and rf: "rf = r1 \<or> (truthy v \<and> (\<exists>cid rt. rf = store_realm_by_client_id utcnow r1 cid v rt))"
    by (rule exchange_cases)
  from resolve_realm_id_effect [OF res]
  have "r1 = r \<or> (\<exists>k. \<not> startswith k client_prefix \<and> r1 = redis_delete r k)"
    using state_key_not_client code_key_not_client by blast
  then obtain dels where j1: "journal r1 = journal r @ dels"
    and nd: "\<forall>c \<in> set dels. \<not> startswith (cmd_key c) client_prefix"
  proof
    assume "r1 = r"
    then have "journal r1 = journal r @ []" by simp
    with that show ?thesis by force
  next
    assume "\<exists>k. \<not> startswith k client_prefix \<and> r1 = redis_delete r k"
    then obtain k where "\<not> startswith k client_prefix" "journal r1 = journal r @ [DEL k]"
      by (auto simp: redis_delete_def)
    with that [of "[DEL k]"] show ?thesis by simp
  qed
  from rf show ?thesis
  proof
    assume "rf = r1"
    with j1 nd show ?thesis by auto
  next
    assume "truthy v \<and> (\<exists>cid rt. rf = store_realm_by_client_id utcnow r1 cid v rt)"
    then obtain cid rt where "rf = store_realm_by_client_id utcnow r1 cid v rt" by blast
    then have "journal rf = journal r @ (dels @
        [SET (client_prefix @ cid)
           (JsonDumped [(''realm_id'', v), (''refresh_token'', rt), (''updated_at'', PStr utcnow)])])"
      using j1 by (simp add: store_realm_by_client_id_def redis_set_def)
    moreover have "\<forall>c \<in> set (dels @
        [SET (client_prefix @ cid)
           (JsonDumped [(''realm_id'', v), (''refresh_token'', rt), (''updated_at'', PStr utcnow)])]).
        startswith (cmd_key c) client_prefix \<longrightarrow> complete_binding_write c"
      using nd by auto
    ultimately show ?thesis by blast
  qed
qed

lemma refresh_journal:
  "\<exists>cmds. journal (snd (snd (refresh_token post utcnow r old_rt realm_s cid))) = journal r @ cmds \<and>
          (\<forall>c \<in> set cmds. startswith (cmd_key c) client_prefix \<longrightarrow> complete_binding_write c)"
proof (cases "snd (snd (refresh_token post utcnow r old_rt realm_s cid)) = r")
  case True
  then have "journal (snd (snd (refresh_token post utcnow r old_rt realm_s cid))) = journal r @ []"
    by simp
  then show ?thesis by force
next
  case False
  then obtain rt where
    "snd (snd (refresh_token post utcnow r old_rt realm_s cid)) =
       store_realm_by_client_id utcnow r cid (PStr realm_s) rt"
    by (auto simp: refresh_token_def Let_def split: http_outcome.splits if_splits option.splits)
  then have "journal (snd (snd (refresh_token post utcnow r old_rt realm_s cid))) =
      journal r @ [SET (client_prefix @ cid)
         (JsonDumped [(''realm_id'', PStr realm_s), (''refresh_token'', rt),
                      (''updated_at'', PStr utcnow)])]"
    by (simp add: store_realm_by_client_id_def redis_set_def)
  then show ?thesis by force
qed

lemma redis_get_entry: "redis_get now r k = Some v \<Longrightarrow> \<exists>e. (k, v, e) \<in> set (entries r)"
  by (auto simp: redis_get_def split: option.splits if_splits dest!: map_of_SomeD)




lemma get_realm_data_bindings_dumped:
  assumes "bindings_dumped r"
  shows "get_realm_data_by_client_id now r cid = Decoded None \<or>
         (\<exists>d. get_realm_data_by_client_id now r cid = Decoded (Some (Dict d)))"
proof (cases "redis_get now r (client_prefix @ cid)")
  case None
  then show ?thesis by (simp add: get_realm_data_by_client_id_def)
next
  case (Some val)
  from redis_get_entry [OF Some] obtain e where "(client_prefix @ cid, val, e) \<in> set (entries r)" ..
  with assms startswith_append [of client_prefix cid] obtain d where "val = JsonDumped d"
    by (cases val) (auto simp: bindings_dumped_def list_all_iff)
  with Some show ?thesis by (simp add: get_realm_data_by_client_id_def)
qed







section \<open>The token verifier and the refresher\<close>

text \<open>
  Claim C3. When the userinfo call answers 401, \<^verbatim>\<open>verify_token\<close> returns \<^verbatim>\<open>None\<close>, the
  unauthenticated result, for every token, verifier, clock reading and store: the store is
  not read and no other path is taken.
\<close>

theorem verify_token_401_unauthenticated:
  assumes "userinfo tok = Response 401 body"
  shows "verify_token v userinfo now utcnow r tok = Ran None"
  using assms by (simp add: verify_token_def)

text \<open>The same at a store that holds a binding: the 401 decides alone.\<close>

theorem verify_token_401_unauthenticated_witness:
  "verify_token \<lparr>required_scopes = [''com.intuit.quickbooks.accounting'']\<rparr>
     (\<lambda>t. if t = ''expired'' then Response 401 () else Response 200 ()) 5 ''2024-05-01T10:00:00''
     \<lparr>entries = [(''qbo:realm:client:c1'',
                  JsonDumped [(''realm_id'', PStr ''123''), (''refresh_token'', PNone),
                              (''updated_at'', PStr ''2024-05-01T09:00:00'')], None)],
      journal = []\<rparr>
     ''expired'' = Ran None"
  using verify_token_401_unauthenticated
    [of "\<lambda>t. if t = ''expired'' then Response 401 () else Response 200 ()" "''expired''" "()"]
  by simp

text \<open>
  Claim C4. When the userinfo call times out, \<^verbatim>\<open>verify_token\<close> fails open: it returns an
  access token for the presented token whose claims hold \<^verbatim>\<open>realm_id\<close> = \<^verbatim>\<open>None\<close> and
  \<^verbatim>\<open>timeout\<close> = \<^verbatim>\<open>True\<close>.
\<close>

theorem verify_token_timeout_fail_open:
  assumes "userinfo tok = TimeoutException"
  shows "\<exists>a. verify_token v userinfo now utcnow r tok = Ran (Some a) \<and>
             token a = tok \<and>
             map_of (claims a) ''realm_id'' = Some PNone \<and>
             map_of (claims a) ''timeout'' = Some (PBool True)"
  using assms by (simp add: verify_token_def)

theorem verify_token_timeout_fail_open_witness:
  "\<exists>a. verify_token \<lparr>required_scopes = [''com.intuit.quickbooks.accounting'']\<rparr>
          (\<lambda>t. TimeoutException) 5 ''2024-05-01T10:00:00'' \<lparr>entries = [], journal = []\<rparr> ''tok'' =
          Ran (Some a) \<and>
        token a = ''tok'' \<and>
        map_of (claims a) ''realm_id'' = Some PNone \<and>
        map_of (claims a) ''timeout'' = Some (PBool True)"
  using verify_token_timeout_fail_open [of "\<lambda>t. TimeoutException" "''tok''"]
  by simp

text \<open>
  Claim C8. When the token endpoint answers with a status other than 200, or the request
  raises, \<^verbatim>\<open>_refresh_token\<close> returns \<^verbatim>\<open>None\<close> after exactly one request and leaves the
  store, its journal included, as it was: nothing is written and nothing is retried.
\<close>

theorem refresh_token_failure_no_write:
  assumes "data = [(''grant_type'', PStr ''refresh_token''), (''refresh_token'', PStr rt)]"
    and "(\<exists>status body. post data = Response status body \<and> status \<noteq> 200) \<or>
         post data = TimeoutException \<or> post data = OtherException"
  shows "refresh_token post utcnow r rt realm cid = (None, [data], r)"
  using assms by (auto simp: refresh_token_def)

theorem refresh_token_failure_no_write_witness:
  "refresh_token (\<lambda>d. Response 400 None) ''2024-05-01T10:00:00''
     \<lparr>entries = [(''qbo:realm:client:c1'',
                  JsonDumped [(''realm_id'', PStr ''123''), (''refresh_token'', PStr ''old''),
                              (''updated_at'', PStr ''2024-05-01T09:00:00'')], None)],
      journal = []\<rparr> ''old'' ''123'' ''c1'' =
   (None, [[(''grant_type'', PStr ''refresh_token''), (''refresh_token'', PStr ''old'')]],
    \<lparr>entries = [(''qbo:realm:client:c1'',
                  JsonDumped [(''realm_id'', PStr ''123''), (''refresh_token'', PStr ''old''),
                              (''updated_at'', PStr ''2024-05-01T09:00:00'')], None)],
      journal = []\<rparr>)"
  using refresh_token_failure_no_write
    [of "[(''grant_type'', PStr ''refresh_token''), (''refresh_token'', PStr ''old'')]" "''old''"
        "\<lambda>d. Response 400 None"]
  by simp

text \<open>
  Claim C7, as stated: after a successful refresh, a subsequent refresh for the same client
  uses the new refresh token and never the stale one. \<^verbatim>\<open>_refresh_token\<close> sends the refresh
  token it is called with and does not read the binding: after the rotation from \<^verbatim>\<open>old\<close> to
  \<^verbatim>\<open>new\<close> the binding holds \<^verbatim>\<open>new\<close>, and a second call with \<^verbatim>\<open>old\<close> for the same client sends
  \<^verbatim>\<open>old\<close>.
\<close>

theorem refresh_token_stale_reuse_counterexample:
  "get_realm_data_by_client_id 7
     (snd (snd (refresh_token
        (\<lambda>d. Response 200 (Some [(''access_token'', PStr ''a2''), (''refresh_token'', PStr ''new'')]))
        ''2024-05-01T10:00:00''
        \<lparr>entries = [(''qbo:realm:client:c1'',
                     JsonDumped [(''realm_id'', PStr ''123''), (''refresh_token'', PStr ''old''),
                                 (''updated_at'', PStr ''2024-05-01T09:00:00'')], None)],
         journal = []\<rparr> ''old'' ''123'' ''c1''))) ''c1'' =
     Decoded (Some (Dict [(''realm_id'', PStr ''123''), (''refresh_token'', PStr ''new''),
                          (''updated_at'', PStr ''2024-05-01T10:00:00'')])) \<and>
   fst (snd (refresh_token (\<lambda>d. Response 400 None) ''2024-05-01T11:00:00''
     (snd (snd (refresh_token
        (\<lambda>d. Response 200 (Some [(''access_token'', PStr ''a2''), (''refresh_token'', PStr ''new'')]))
        ''2024-05-01T10:00:00''
        \<lparr>entries = [(''qbo:realm:client:c1'',
                     JsonDumped [(''realm_id'', PStr ''123''), (''refresh_token'', PStr ''old''),
                                 (''updated_at'', PStr ''2024-05-01T09:00:00'')], None)],
         journal = []\<rparr> ''old'' ''123'' ''c1'')))
     ''old'' ''123'' ''c1'')) =
     [[(''grant_type'', PStr ''refresh_token''), (''refresh_token'', PStr ''old'')]]"
  by code_simp

text \<open>
  Claim C7, amended. When the token endpoint answers 200 with a refresh token in its body,
  \<^verbatim>\<open>_refresh_token\<close> returns the new pair and has, by then, written the binding of the
  client with the new refresh token: what \<^verbatim>\<open>get_realm_data_by_client_id\<close> reads afterwards,
  at any time, is the record with the realm id passed in, the new refresh token and the
  time of the call. A subsequent refresh sends the refresh token its caller passes,
  whatever the store holds: the new one when the caller takes it from the binding.
\<close>

theorem refresh_token_persists_rotation:
  assumes "post [(''grant_type'', PStr ''refresh_token''), (''refresh_token'', PStr rt)] =
             Response 200 (Some reply)"
    and "map_of reply ''refresh_token'' = Some (PStr new_rt)"
  shows "fst (refresh_token post utcnow r rt realm cid) =
           Some (dict_get reply ''access_token'', PStr new_rt) \<and>
         get_realm_data_by_client_id now (snd (snd (refresh_token post utcnow r rt realm cid))) cid =
           Decoded (Some (Dict [(''realm_id'', PStr realm), (''refresh_token'', PStr new_rt),
                                (''updated_at'', PStr utcnow)])) \<and>
         fst (snd (refresh_token post_next utcnow_next
                     (snd (snd (refresh_token post utcnow r rt realm cid))) rt_next realm cid)) =
           [[(''grant_type'', PStr ''refresh_token''), (''refresh_token'', PStr rt_next)]]"
proof (intro conjI)
  show "fst (refresh_token post utcnow r rt realm cid) =
          Some (dict_get reply ''access_token'', PStr new_rt)"
    using assms by (simp add: refresh_token_def Let_def dict_get_default_def)
  show "get_realm_data_by_client_id now (snd (snd (refresh_token post utcnow r rt realm cid))) cid =
          Decoded (Some (Dict [(''realm_id'', PStr realm), (''refresh_token'', PStr new_rt),
                               (''updated_at'', PStr utcnow)]))"
    using assms
    by (simp add: refresh_token_def Let_def dict_get_default_def store_realm_by_client_id_def
        get_realm_data_by_client_id_def redis_get_set)
  show "fst (snd (refresh_token post_next utcnow_next
                    (snd (snd (refresh_token post utcnow r rt realm cid))) rt_next realm cid)) =
          [[(''grant_type'', PStr ''refresh_token''), (''refresh_token'', PStr rt_next)]]"
    by (simp add: refresh_token_def Let_def
        split: http_outcome.splits option.splits)
qed

theorem refresh_token_persists_rotation_witness:
  "fst (refresh_token
       (\<lambda>d. Response 200 (Some [(''access_token'', PStr ''a2''), (''refresh_token'', PStr ''new'')]))
       ''2024-05-01T10:00:00''
       \<lparr>entries = [(''qbo:realm:client:c1'',
                    JsonDumped [(''realm_id'', PStr ''123''), (''refresh_token'', PStr ''old''),
                                (''updated_at'', PStr ''2024-05-01T09:00:00'')], None)],
        journal = []\<rparr> ''old'' ''123'' ''c1'') = Some (PStr ''a2'', PStr ''new'') \<and>
   get_realm_data_by_client_id 7
     (snd (snd (refresh_token
       (\<lambda>d. Response 200 (Some [(''access_token'', PStr ''a2''), (''refresh_token'', PStr ''new'')]))
       ''2024-05-01T10:00:00''
       \<lparr>entries = [(''qbo:realm:client:c1'',
                    JsonDumped [(''realm_id'', PStr ''123''), (''refresh_token'', PStr ''old''),
                                (''updated_at'', PStr ''2024-05-01T09:00:00'')], None)],
        journal = []\<rparr> ''old'' ''123'' ''c1''))) ''c1'' =
     Decoded (Some (Dict [(''realm_id'', PStr ''123''), (''refresh_token'', PStr ''new''),
                          (''updated_at'', PStr ''2024-05-01T10:00:00'')])) \<and>
   fst (snd (refresh_token (\<lambda>d. Response 400 None) ''2024-05-01T11:00:00''
     (snd (snd (refresh_token
       (\<lambda>d. Response 200 (Some [(''access_token'', PStr ''a2''), (''refresh_token'', PStr ''new'')]))
       ''2024-05-01T10:00:00''
       \<lparr>entries = [(''qbo:realm:client:c1'',
                    JsonDumped [(''realm_id'', PStr ''123''), (''refresh_token'', PStr ''old''),
                                (''updated_at'', PStr ''2024-05-01T09:00:00'')], None)],
        journal = []\<rparr> ''old'' ''123'' ''c1'')))
     ''new'' ''123'' ''c1'')) =
     [[(''grant_type'', PStr ''refresh_token''), (''refresh_token'', PStr ''new'')]]"
  using refresh_token_persists_rotation
    [where post = "\<lambda>d. Response 200 (Some [(''access_token'', PStr ''a2''), (''refresh_token'', PStr ''new'')])"
       and rt = "''old''" and reply = "[(''access_token'', PStr ''a2''), (''refresh_token'', PStr ''new'')]"
       and new_rt = "''new''" and utcnow = "''2024-05-01T10:00:00''" and realm = "''123''"
       and cid = "''c1''" and now = 7 and post_next = "\<lambda>d. Response 400 None"
       and utcnow_next = "''2024-05-01T11:00:00''" and rt_next = "''new''"
       and r = "\<lparr>entries = [(''qbo:realm:client:c1'',
                    JsonDumped [(''realm_id'', PStr ''123''), (''refresh_token'', PStr ''old''),
                                (''updated_at'', PStr ''2024-05-01T09:00:00'')], None)],
        journal = []\<rparr>"]
  by (simp add: dict_get_def)

text \<open>
  Claim C10, as stated: every authenticated result carries the presented token as
  \<^verbatim>\<open>upstream_access_token\<close> and the verifier's required scopes, and for any store state a
  200 answer of the userinfo call gives an authenticated result. The second part fails on a
  store whose client-keyed value is not JSON: \<^verbatim>\<open>json.loads\<close> raises inside
  \<^verbatim>\<open>get_realm_data_by_client_id\<close>, \<^verbatim>\<open>except Exception\<close> catches it, and the result is
  \<^verbatim>\<open>None\<close>.
\<close>

theorem verify_token_corrupt_binding_counterexample:
  "verify_token \<lparr>required_scopes = [''com.intuit.quickbooks.accounting'']\<rparr>
     (\<lambda>t. Response 200 ()) 5 ''2024-05-01T10:00:00''
     \<lparr>entries = [(''qbo:realm:client:c1'', Text ''oops'', None)], journal = []\<rparr> ''tok'' = Ran None"
  by code_simp


text \<open>
  Claim C10, amended. Every authenticated result of \<^verbatim>\<open>verify_token\<close>, on the normal path
  and on the timeout path, carries the presented token, as \<^verbatim>\<open>token\<close> and as the claim
  \<^verbatim>\<open>upstream_access_token\<close>, and the verifier's required scopes. On a store whose
  client-keyed values are all dumped dicts, as \<^verbatim>\<open>store_realm_by_client_id\<close> writes them (the
  empty store is one), a 200 answer gives an authenticated result.
\<close>

theorem verify_token_claims:
  "(\<forall>a. verify_token v userinfo now utcnow r tok = Ran (Some a) \<longrightarrow>
      token a = tok \<and> scopes a = required_scopes v \<and>
      map_of (claims a) ''upstream_access_token'' = Some (PStr tok)) \<and>
   (bindings_dumped r \<longrightarrow>
      (\<forall>body. userinfo tok = Response 200 body \<longrightarrow>
         (\<exists>a. verify_token v userinfo now utcnow r tok = Ran (Some a))))"
proof (intro conjI allI impI)
  fix a
  assume "verify_token v userinfo now utcnow r tok = Ran (Some a)"
  from verify_token_Some_fields [OF this]
  show "token a = tok" "scopes a = required_scopes v"
    "map_of (claims a) ''upstream_access_token'' = Some (PStr tok)"
    by simp_all
next
  fix body
  assume wf: "bindings_dumped r" and ok: "userinfo tok = Response 200 body"
  show "\<exists>a. verify_token v userinfo now utcnow r tok = Ran (Some a)"
  proof (cases "scan_iter now r client_prefix")
    case Nil
    with ok show ?thesis by (simp add: verify_token_def)
  next
    case (Cons key_str ks)
    from get_realm_data_bindings_dumped [OF wf, of now "last_segment key_str"]
    show ?thesis
      using ok Cons by (auto simp: verify_token_def Let_def)
  qed
qed

theorem verify_token_claims_witness:
  "\<exists>a. verify_token \<lparr>required_scopes = [''com.intuit.quickbooks.accounting'']\<rparr>
          (\<lambda>t. Response 200 ()) 5 ''2024-05-01T10:00:00''
          \<lparr>entries = [(''qbo:realm:client:c1'',
                       JsonDumped [(''realm_id'', PStr ''123''), (''refresh_token'', PNone),
                                   (''updated_at'', PStr ''2024-05-01T09:00:00'')], None)],
           journal = []\<rparr> ''tok'' = Ran (Some a) \<and>
        token a = ''tok'' \<and> scopes a = [''com.intuit.quickbooks.accounting''] \<and>
        map_of (claims a) ''upstream_access_token'' = Some (PStr ''tok'') \<and>
        map_of (claims a) ''realm_id'' = Some (PStr ''123'')"
proof -
  let ?r = "\<lparr>entries = [(''qbo:realm:client:c1'',
                       JsonDumped [(''realm_id'', PStr ''123''), (''refresh_token'', PNone),
                                   (''updated_at'', PStr ''2024-05-01T09:00:00'')], None)],
             journal = []\<rparr>"
  have wf: "bindings_dumped ?r"
    by (simp add: bindings_dumped_def)
  have run: "verify_token \<lparr>required_scopes = [''com.intuit.quickbooks.accounting'']\<rparr>
          (\<lambda>t. Response 200 ()) 5 ''2024-05-01T10:00:00'' ?r ''tok'' =
        Ran (Some (authenticated \<lparr>required_scopes = [''com.intuit.quickbooks.accounting'']\<rparr>
                     ''2024-05-01T10:00:00'' ''tok'' ''c1'' (PStr ''123'')))"
    by code_simp
  from verify_token_claims
    [where v = "\<lparr>required_scopes = [''com.intuit.quickbooks.accounting'']\<rparr>" and
       userinfo = "\<lambda>t. Response 200 ()" and utcnow = "''2024-05-01T10:00:00''" and
       tok = "''tok''" and now = 5 and r = ?r]
  show ?thesis using wf unfolding run by (simp add: authenticated_def)
qed

section \<open>The callback handler\<close>

text \<open>
  Claim C9. A parameter counts as present when it has a non-empty value. For every request
  the handler returns the response of the wrapped flow for that request, and the commands
  it sends to the store are exactly: a \<^verbatim>\<open>SETEX\<close> of the state-keyed entry with 600 seconds
  when \<^verbatim>\<open>realmId\<close> and \<^verbatim>\<open>state\<close> are present, then a \<^verbatim>\<open>SETEX\<close> of the code-keyed entry with 600
  seconds when \<^verbatim>\<open>realmId\<close> and \<^verbatim>\<open>code\<close> are present; at most two in all, and none, with the
  store unchanged, when \<^verbatim>\<open>realmId\<close> is absent. Each entry written reads as the realm id
  before \<open>now + 600\<close> and as absent from then on.
\<close>

theorem handle_idp_callback_writes:
  fixes parent :: "request \<Rightarrow> 'resp"
  shows
  "(let realm_id = query_params req ''realmId'';
        state = query_params req ''state'';
        code = query_params req ''code'';
        out = handle_idp_callback parent now r req
    in fst out = parent req \<and>
       journal (snd out) =
         journal r
         @ (if present realm_id \<and> present state
            then [SETEX (state_prefix @ the state) 600 (Text (the realm_id))] else [])
         @ (if present realm_id \<and> present code
            then [SETEX (code_prefix @ the code) 600 (Text (the realm_id))] else []) \<and>
       length (journal (snd out)) \<le> length (journal r) + 2 \<and>
       (\<not> present realm_id \<longrightarrow> snd out = r) \<and>
       (present realm_id \<and> present state \<longrightarrow>
          (\<forall>t. redis_get t (snd out) (state_prefix @ the state) =
                (if t < now + 600 then Some (Text (the realm_id)) else None))) \<and>
       (present realm_id \<and> present code \<longrightarrow>
          (\<forall>t. redis_get t (snd out) (code_prefix @ the code) =
                (if t < now + 600 then Some (Text (the realm_id)) else None))))"
  unfolding handle_idp_callback_def Let_def store_realm_by_state_def
  by (simp add: redis_get_setex state_key_neq_code_key) (simp add: redis_setex_def)

theorem handle_idp_callback_writes_witness:
  "(let req = \<lparr>query_params = [''realmId'' \<mapsto> ''123'', ''state'' \<mapsto> ''s1'', ''code'' \<mapsto> ''abc'']\<rparr>;
        out = handle_idp_callback (\<lambda>q. ''redirect'') 0 \<lparr>entries = [], journal = []\<rparr> req
    in fst out = ''redirect'' \<and>
       journal (snd out) =
         [SETEX ''qbo:realm:state:s1'' 600 (Text ''123''),
          SETEX ''qbo:realm:code:abc'' 600 (Text ''123'')] \<and>
       redis_get 599 (snd out) ''qbo:realm:state:s1'' = Some (Text ''123'') \<and>
       redis_get 600 (snd out) ''qbo:realm:state:s1'' = None \<and>
       redis_get 599 (snd out) ''qbo:realm:code:abc'' = Some (Text ''123''))"
  using handle_idp_callback_writes
    [of "\<lparr>query_params = [''realmId'' \<mapsto> ''123'', ''state'' \<mapsto> ''s1'', ''code'' \<mapsto> ''abc'']\<rparr>"
        "\<lambda>q. ''redirect''" 0 "\<lparr>entries = [], journal = []\<rparr>"]
  by (simp add: Let_def present_def state_prefix_def code_prefix_def)

section \<open>The code exchange\<close>




text \<open>
  Claim C2, as stated: the fallback resolves through the code-keyed entry of this
  authorization code. Method 2 scans every code-keyed entry and takes the first one with a
  non-empty value; the authorization code is not part of the lookup. With the entries of two
  callbacks in the store and the scan yielding the older one first, the exchange for code
  \<^verbatim>\<open>abc123\<close> binds the realm id \<^verbatim>\<open>999\<close> stored under \<^verbatim>\<open>zzz\<close>, deletes that entry and leaves the
  one under \<^verbatim>\<open>abc123\<close>.
\<close>

theorem exchange_code_fallback_other_code_counterexample:
  "exchange_authorization_code (\<lambda>c a. (Inr ''token'' :: unit + string)) Map.empty 10
     ''2024-05-01T10:00:00''
     (snd (handle_idp_callback (\<lambda>q. ()) 5
        (snd (handle_idp_callback (\<lambda>q. ()) 0 \<lparr>entries = [], journal = []\<rparr>
                \<lparr>query_params = [''realmId'' \<mapsto> ''999'', ''code'' \<mapsto> ''zzz'']\<rparr>))
        \<lparr>query_params = [''realmId'' \<mapsto> ''456'', ''code'' \<mapsto> ''abc123'']\<rparr>))
     \<lparr>client_id = Some ''c1''\<rparr> \<lparr>code = ''abc123''\<rparr> =
   Ran (Inr ''token'',
        \<lparr>entries =
           [(''qbo:realm:code:abc123'', Text ''456'', Some 605),
            (''qbo:realm:client:c1'',
             JsonDumped [(''realm_id'', PStr ''999''), (''refresh_token'', PNone),
                         (''updated_at'', PStr ''2024-05-01T10:00:00'')], None)],
         journal =
           [SETEX ''qbo:realm:code:zzz'' 600 (Text ''999''),
            SETEX ''qbo:realm:code:abc123'' 600 (Text ''456''),
            DEL ''qbo:realm:code:zzz'',
            SET ''qbo:realm:client:c1''
              (JsonDumped [(''realm_id'', PStr ''999''), (''refresh_token'', PNone),
                           (''updated_at'', PStr ''2024-05-01T10:00:00'')])]\<rparr>)"
  by code_simp

text \<open>
  Claim C2, amended. When the scan of the state-keyed entries resolves no tenant id, the
  exchange takes the first live code-keyed entry in scan order whose value is not empty,
  whatever code it is keyed by, resolves its value as it is, and deletes that entry; when
  the wrapped exchange succeeds and the client id is non-empty, that value is bound to the
  client. When the entry the callback wrote for (tenantId, code) is the only code-keyed
  entry (Scenario B), the exchange resolves that tenantId.
\<close>

theorem exchange_code_fallback_first_entry:
  assumes "scan_state_entries now (scan_iter now r state_prefix) PNone r = Ran (v0, r0)"
    and "\<not> truthy v0"
    and "scan_iter now r code_prefix = skipped @ k # rest"
    and "\<forall>k' \<in> set skipped. redis_get now r k' = Some (Text [])"
    and "redis_get now r k = Some (Text tid)"
    and "tid \<noteq> []"
  shows "resolve_realm_id now r = Ran (PStr tid, redis_delete r k) \<and>
         (\<forall>result cid. parent_exchange cl ac = Inr result \<and> client_id cl = Some cid \<and> cid \<noteq> [] \<longrightarrow>
            exchange_authorization_code parent_exchange code_store now utcnow r cl ac =
              Ran (Inr result,
                   store_realm_by_client_id utcnow (redis_delete r k) cid (PStr tid)
                     (idp_refresh_token (code_store (code ac)))))"
proof -
  from scan_state_entries_effect [OF assms(1)] assms(2) have r0: "r0 = r" by simp
  have "scan_code_entries now (scan_iter now r code_prefix) v0 r =
        scan_code_entries now (k # rest) v0 r"
    unfolding assms(3) using assms(4) by (rule scan_code_entries_skip)
  also have "\<dots> = Ran (PStr tid, redis_delete r k)"
    using assms(5,6) by simp
  finally have res: "resolve_realm_id now r = Ran (PStr tid, redis_delete r k)"
    using assms(1,2) r0 by (simp add: resolve_realm_id_def)
  show ?thesis
    using res assms(6)
    by (simp add: exchange_authorization_code_def Let_def present_def)
qed

text \<open>Scenario B: the callback omits \<^verbatim>\<open>state\<close> and carries \<^verbatim>\<open>realmId=456\<close>, \<^verbatim>\<open>code=abc123\<close>.\<close>

theorem exchange_code_fallback_first_entry_witness:
  "(let r = snd (handle_idp_callback (\<lambda>q. ()) 0 \<lparr>entries = [], journal = []\<rparr>
                \<lparr>query_params = [''realmId'' \<mapsto> ''456'', ''code'' \<mapsto> ''abc123'']\<rparr>)
    in resolve_realm_id 10 r = Ran (PStr ''456'', redis_delete r ''qbo:realm:code:abc123'') \<and>
       exchange_authorization_code (\<lambda>c a. (Inr ''token'' :: unit + string)) Map.empty 10
         ''2024-05-01T10:00:00'' r \<lparr>client_id = Some ''c1''\<rparr> \<lparr>code = ''abc123''\<rparr> =
         Ran (Inr ''token'',
              store_realm_by_client_id ''2024-05-01T10:00:00''
                (redis_delete r ''qbo:realm:code:abc123'') ''c1'' (PStr ''456'') PNone))"
proof -
  define r where "r = snd (handle_idp_callback (\<lambda>q. ()) 0 \<lparr>entries = [], journal = []\<rparr>
                \<lparr>query_params = [''realmId'' \<mapsto> ''456'', ''code'' \<mapsto> ''abc123'']\<rparr>)"
  have r: "r = \<lparr>entries = [(''qbo:realm:code:abc123'', Text ''456'', Some 600)],
                journal = [SETEX ''qbo:realm:code:abc123'' 600 (Text ''456'')]\<rparr>"
    unfolding r_def by code_simp
  have h1: "scan_state_entries 10 (scan_iter 10 r state_prefix) PNone r = Ran (PNone, r)"
    unfolding r by (simp add: scan_iter_def state_prefix_def)
  have h2: "\<not> truthy PNone" by simp
  have h3: "scan_iter 10 r code_prefix = [] @ ''qbo:realm:code:abc123'' # []"
    unfolding r by (simp add: scan_iter_def code_prefix_def live_def)
  have h4: "\<forall>k' \<in> set []. redis_get 10 r k' = Some (Text [])" by simp
  have h5: "redis_get 10 r ''qbo:realm:code:abc123'' = Some (Text ''456'')"
    unfolding r by (simp add: redis_get_def live_def)
  from exchange_code_fallback_first_entry
    [where parent_exchange = "\<lambda>c a. (Inr ''token'' :: unit + string)" and
       cl = "\<lparr>client_id = Some ''c1''\<rparr>" and ac = "\<lparr>code = ''abc123''\<rparr>" and
       code_store = Map.empty and utcnow = "''2024-05-01T10:00:00''",
     OF h1 h2 h3 h4 h5]
  show ?thesis
    unfolding r_def [symmetric] by (simp add: Let_def idp_refresh_token_def)
qed




section \<open>Writes of client bindings\<close>

text \<open>
  Claim C5. On a store with one value per key, \<^verbatim>\<open>store_realm_by_client_id\<close> leaves exactly
  one entry under the client's key, the dump of the complete record with the realm id, the
  refresh token and the time passed in, without expiry and whatever the key held before;
  keys stay unique and no other key changes. Every command that a code exchange or a
  token refresh sends for a client-keyed key is such a \<^verbatim>\<open>SET\<close> of a complete three-key record:
  no binding is updated in part.
\<close>

theorem client_binding_full_replacement:
  assumes "keys_distinct r"
  shows "(let key = client_prefix @ cid;
              binding = JsonDumped [(''realm_id'', realm), (''refresh_token'', rt),
                                    (''updated_at'', PStr utcnow)];
              r' = store_realm_by_client_id utcnow r cid realm rt
          in keys_distinct r' \<and>
             filter (\<lambda>e. fst e = key) (entries r') = [(key, binding, None)] \<and>
             (\<forall>k. k \<noteq> key \<longrightarrow> map_of (entries r') k = map_of (entries r) k) \<and>
             journal r' = journal r @ [SET key binding]) \<and>
         (\<forall>out rf. exchange_authorization_code parent_exchange code_store now utcnow r cl ac =
                     Ran (out, rf) \<longrightarrow>
            (\<exists>cmds. journal rf = journal r @ cmds \<and>
               (\<forall>c \<in> set cmds. startswith (cmd_key c) client_prefix \<longrightarrow>
                  complete_binding_write c))) \<and>
         (\<exists>cmds. journal (snd (snd (refresh_token post utcnow r old_rt realm_s cid))) =
                   journal r @ cmds \<and>
            (\<forall>c \<in> set cmds. startswith (cmd_key c) client_prefix \<longrightarrow>
               complete_binding_write c))"
proof (intro conjI)
  show "let key = client_prefix @ cid;
            binding = JsonDumped [(''realm_id'', realm), (''refresh_token'', rt),
                                  (''updated_at'', PStr utcnow)];
            r' = store_realm_by_client_id utcnow r cid realm rt
        in keys_distinct r' \<and>
           filter (\<lambda>e. fst e = key) (entries r') = [(key, binding, None)] \<and>
           (\<forall>k. k \<noteq> key \<longrightarrow> map_of (entries r') k = map_of (entries r) k) \<and>
           journal r' = journal r @ [SET key binding]"
    using assms
    by (simp add: Let_def store_realm_by_client_id_def keys_distinct_set)
       (simp add: redis_set_def keys_distinct_def filter_update_same update_conv')
  show "\<forall>out rf. exchange_authorization_code parent_exchange code_store now utcnow r cl ac =
                   Ran (out, rf) \<longrightarrow>
          (\<exists>cmds. journal rf = journal r @ cmds \<and>
             (\<forall>c \<in> set cmds. startswith (cmd_key c) client_prefix \<longrightarrow>
                complete_binding_write c))"
    using exchange_journal by blast
  show "\<exists>cmds. journal (snd (snd (refresh_token post utcnow r old_rt realm_s cid))) =
                 journal r @ cmds \<and>
          (\<forall>c \<in> set cmds. startswith (cmd_key c) client_prefix \<longrightarrow>
             complete_binding_write c)"
    by (rule refresh_journal)
qed

theorem client_binding_full_replacement_witness:
  "(let r = \<lparr>entries = [(''qbo:realm:client:c1'',
                 JsonDumped [(''realm_id'', PStr ''111''), (''refresh_token'', PStr ''old''),
                             (''updated_at'', PStr ''2024-05-01T09:00:00'')], None)],
             journal = []\<rparr>;
        binding = JsonDumped [(''realm_id'', PStr ''123''), (''refresh_token'', PNone),
                              (''updated_at'', PStr ''2024-05-01T10:00:00'')];
        r' = store_realm_by_client_id ''2024-05-01T10:00:00'' r ''c1'' (PStr ''123'') PNone
    in keys_distinct r' \<and>
       entries r' = [(''qbo:realm:client:c1'', binding, None)] \<and>
       journal r' = [SET ''qbo:realm:client:c1'' binding])"
proof -
  have "keys_distinct \<lparr>entries = [(''qbo:realm:client:c1'',
                 JsonDumped [(''realm_id'', PStr ''111''), (''refresh_token'', PStr ''old''),
                             (''updated_at'', PStr ''2024-05-01T09:00:00'')], None)],
             journal = []\<rparr>"
    by (simp add: keys_distinct_def)
  from client_binding_full_replacement [where cid = "''c1''" and realm = "PStr ''123''" and
      rt = PNone and utcnow = "''2024-05-01T10:00:00''", OF this, THEN conjunct1]
  show ?thesis
    by (simp add: Let_def store_realm_by_client_id_def redis_set_def client_prefix_def)
qed

end
